theory Spec2Isabelle
  imports Complex_Main
begin

section \<open>Values exchanged with the remote classifier\<close>

text \<open>
  The remote classifier answers with text that \<^verbatim>\<open>json.loads\<close> turns into Python
  values. The values are kept as Python has them: an integer and a float are different
  values, a dictionary keeps its keys in insertion order. Floats are modelled as reals
  (the thresholds of this program are compared exactly, rounding is not modelled).
\<close>

datatype json =
    JNull
  | JBool bool
  | JInt int
  | JFloat real
  | JStr string
  | JArr "json list"
  | JObj "(string \<times> json) list"

datatype py_exception = ZeroDivisionError | TypeError | ValueError | OverflowError

section \<open>The final recommendation of \<^verbatim>\<open>predict_credit_risk\<close>\<close>

text \<open>
  \<^verbatim>\<open>ml_pred = "bad" if ml_proba > 0.5 else "good"\<close>
\<close>

definition ml_pred :: "real \<Rightarrow> string" where
  "ml_pred ml_proba = (if ml_proba > 0.5 then ''bad'' else ''good'')"

text \<open>
  The three-way \<^verbatim>\<open>if/elif/else\<close> of \<^verbatim>\<open>api_with_monitoring.py\<close>, lines 124 to 130
  (the same code is in \<^verbatim>\<open>api.py\<close>). The first argument is the label of the local model,
  the second is \<^verbatim>\<open>bedrock_result['prediction']\<close>, which is whatever value the remote
  classifier's answer held: comparing a value that is not a string with \<^verbatim>\<open>"bad"\<close>
  is false in Python.
\<close>

definition recommendation :: "string \<Rightarrow> json \<Rightarrow> string" where
  "recommendation ml bedrock_prediction =
     (if ml = ''bad'' \<and> bedrock_prediction = JStr ''bad''
        then ''RECHAZAR - Ambos modelos predicen alto riesgo''
      else if ml = ''good'' \<and> bedrock_prediction = JStr ''good''
        then ''APROBAR - Ambos modelos predicen bajo riesgo''
      else ''REVISAR MANUALMENTE - Modelos discrepan'')"

section \<open>Parsing the remote classifier's answer\<close>

text \<open>
  Strings are lists of bytes (UTF-8). The braces, the letters and the digits the parser
  looks for are ASCII, so a position found in the bytes cuts the text where the same
  search on code points cuts it.
\<close>

text \<open>\<^verbatim>\<open>str.find\<close> for a one-character needle: the first index, or -1.\<close>

fun find_char :: "char \<Rightarrow> string \<Rightarrow> int" where
  "find_char c [] = - 1"
| "find_char c (x # xs) =
     (if x = c then 0
      else (let i = find_char c xs in if i = - 1 then - 1 else i + 1))"

text \<open>\<^verbatim>\<open>str.rfind\<close> for a one-character needle: the last index, or -1.\<close>

definition rfind_char :: "char \<Rightarrow> string \<Rightarrow> int" where
  "rfind_char c s =
     (let i = find_char c (rev s) in if i = - 1 then - 1 else int (length s) - 1 - i)"

text \<open>
  A slice \<^verbatim>\<open>s[a:b]\<close>: a negative index counts from the end, every index is clamped
  to the text, and a stop before the start gives the empty text.
\<close>

definition slice_index :: "nat \<Rightarrow> int \<Rightarrow> nat" where
  "slice_index n i = (if i < 0 then nat (max (i + int n) 0) else min (nat i) n)"

definition py_slice :: "string \<Rightarrow> int \<Rightarrow> int \<Rightarrow> string" where
  "py_slice s a b =
     (let lo = slice_index (length s) a; hi = slice_index (length s) b
      in take (hi - lo) (drop lo s))"

text \<open>
  \<^verbatim>\<open>str.lower\<close> on the ASCII letters. No character outside ASCII has a lower-case
  form among the letters of "good" and "bad", so the two searches below see what
  Python's see.
\<close>

definition lower_char :: "char \<Rightarrow> char" where
  "lower_char c =
     (case map_of (zip ''ABCDEFGHIJKLMNOPQRSTUVWXYZ'' ''abcdefghijklmnopqrstuvwxyz'') c of
        Some l \<Rightarrow> l
      | None \<Rightarrow> c)"

definition lower :: "string \<Rightarrow> string" where
  "lower s = map lower_char s"

fun startswith :: "string \<Rightarrow> string \<Rightarrow> bool" where
  "startswith [] s = True"
| "startswith (p # ps) [] = False"
| "startswith (p # ps) (x # xs) = (p = x \<and> startswith ps xs)"

text \<open>\<^verbatim>\<open>needle in s\<close> on two strings.\<close>

fun contains :: "string \<Rightarrow> string \<Rightarrow> bool" where
  "contains needle [] = (needle = [])"
| "contains needle (x # xs) = (startswith needle (x # xs) \<or> contains needle xs)"

text \<open>\<^verbatim>\<open>key in d\<close> and \<^verbatim>\<open>d[key]\<close> on a dictionary.\<close>

definition has_key :: "string \<Rightarrow> (string \<times> json) list \<Rightarrow> bool" where
  "has_key k d = (map_of d k \<noteq> None)"

definition get_item :: "(string \<times> json) list \<Rightarrow> string \<Rightarrow> json option" where
  "get_item d k = map_of d k"

text \<open>
  \<^verbatim>\<open>BedrockClient._parse_classification_response\<close>. The parameter \<open>loads\<close> is
  \<^verbatim>\<open>json.loads\<close>, a library function: on a text that begins with an opening brace it
  returns a dictionary or raises, and \<open>Inl msg\<close> is the exception with its message.
  The \<^verbatim>\<open>except\<close> clause catches that exception; nothing else in the body can raise.
\<close>

definition parse_classification_response ::
  "(string \<Rightarrow> string + (string \<times> json) list) \<Rightarrow> string \<Rightarrow> (string \<times> json) list" where
  "parse_classification_response loads response_text =
     (let start_idx = find_char (CHR ''{'') response_text;
          end_idx = rfind_char (CHR ''}'') response_text + 1;
          basic =
            (if contains ''good'' (lower response_text) then
               [(''prediction'', JStr ''good''), (''confidence'', JFloat 0.6),
                (''reasoning'', JStr ''Parsed from text'')]
             else if contains ''bad'' (lower response_text) then
               [(''prediction'', JStr ''bad''), (''confidence'', JFloat 0.6),
                (''reasoning'', JStr ''Parsed from text'')]
             else
               [(''prediction'', JStr ''unknown''), (''confidence'', JFloat 0.0),
                (''reasoning'', JStr ''Could not parse'')])
      in if start_idx \<noteq> - 1 \<and> end_idx \<noteq> 0 then
           (case loads (py_slice response_text start_idx end_idx) of
              Inl msg \<Rightarrow>
                [(''prediction'', JStr ''unknown''), (''confidence'', JFloat 0.0),
                 (''reasoning'', JStr (''Parse error: '' @ msg))]
            | Inr result \<Rightarrow>
                if has_key ''prediction'' result \<and> has_key ''confidence'' result
                then result else basic)
         else basic)"

text \<open>
  \<^verbatim>\<open>BedrockClient.classify_credit_risk\<close>. The call to the remote service is outside
  the program: \<open>response\<close> is \<open>Inr text\<close> when the service answered (the text already
  stripped), and \<open>Inl msg\<close> when anything in the \<^verbatim>\<open>try\<close> block raised.
\<close>

definition classify_credit_risk ::
  "(string \<Rightarrow> string + (string \<times> json) list) \<Rightarrow> string + string \<Rightarrow> (string \<times> json) list" where
  "classify_credit_risk loads response =
     (case response of
        Inl msg \<Rightarrow>
          [(''prediction'', JStr ''unknown''), (''confidence'', JFloat 0.0),
           (''reasoning'', JStr (''Error: '' @ msg))]
      | Inr classification_text \<Rightarrow> parse_classification_response loads classification_text)"

text \<open>
  What \<^verbatim>\<open>json.loads\<close> does on the three texts given to it below: an answer in the
  form the prompt of \<^verbatim>\<open>_create_classification_prompt\<close> asks for ("GOOD or BAD"),
  which loads; an object without the two keys, which loads; and an answer with an
  unquoted label, which raises with the message shown. No other text is given to this
  loader.
\<close>

definition loads_sample :: "string \<Rightarrow> string + (string \<times> json) list" where
  \<open>loads_sample s =
     (if s = ''{"prediction": "GOOD", "confidence": 95, "reasoning": "stable income"}''
      then Inr [(''prediction'', JStr ''GOOD''), (''confidence'', JInt 95),
                (''reasoning'', JStr ''stable income'')]
      else if s = ''{"label": "bad"}''
      then Inr [(''label'', JStr ''bad'')]
      else if s = ''{"prediction": BAD}''
      then Inl ''Expecting value: line 1 column 16 (char 15)''
      else Inl ''Expecting value: line 1 column 1 (char 0)'')\<close>

section \<open>The monitor: \<^verbatim>\<open>CreditRiskMonitor\<close>\<close>

text \<open>
  A point in time is a number of microseconds, the resolution of \<^verbatim>\<open>datetime\<close>. The
  source stores \<^verbatim>\<open>datetime.now().isoformat()\<close> and reads it back with
  \<^verbatim>\<open>datetime.fromisoformat\<close>, which gives the same point in time. Each method reads
  the clock; the reading is the argument \<open>now\<close>. Writing to the log files is outside the
  model.
\<close>

type_synonym request = "(string \<times> json) list"

record prediction_log =
  timestamp :: int
  request :: request
  ml_prediction :: string
  ml_probability :: real
  bedrock_prediction :: json
  bedrock_confidence :: json
  agreement :: bool
  response_time :: real

record error_log =
  error_timestamp :: int
  error_type :: string
  error_message :: string
  request_data :: "request option"

text \<open>The dictionary \<^verbatim>\<open>self.metrics\<close>: six lists, filled by appending.\<close>

record metrics =
  predictions :: "prediction_log list"
  response_times :: "real list"
  ml_predictions :: "string list"
  bedrock_predictions :: "json list"
  agreements :: "bool list"
  errors :: "error_log list"

definition init :: metrics where
  "init = \<lparr>predictions = [], response_times = [], ml_predictions = [],
           bedrock_predictions = [], agreements = [], errors = []\<rparr>"

text \<open>The three \<^verbatim>\<open>logger.warning\<close> lines of \<^verbatim>\<open>_check_alerts\<close>.\<close>

datatype alert = LowAgreement | HighLatency | ErrorSpike

text \<open>\<^verbatim>\<open>xs[-n:]\<close>: the last \<open>n\<close> elements, or all of them when there are fewer.\<close>

definition last_n :: "nat \<Rightarrow> 'a list \<Rightarrow> 'a list" where
  "last_n n xs = drop (length xs - n) xs"

text \<open>\<^verbatim>\<open>sum\<close> over a list of booleans counts the true ones.\<close>

definition sum_bools :: "bool list \<Rightarrow> int" where
  "sum_bools bs = sum_list (map (\<lambda>b. if b then 1 else 0) bs)"

text \<open>
  The attribute \<^verbatim>\<open>seconds\<close> of a \<^verbatim>\<open>timedelta\<close> of \<open>d\<close> microseconds. Python keeps a
  time difference as days, seconds (0 to 86399) and microseconds; \<^verbatim>\<open>seconds\<close> is the
  second of these three, not the length of the difference.
\<close>

definition timedelta_seconds :: "int \<Rightarrow> int" where
  "timedelta_seconds d = (d mod 86400000000) div 1000000"

text \<open>
  The list \<^verbatim>\<open>recent_errors\<close>, computed by the same comprehension in
  \<^verbatim>\<open>_check_alerts\<close> and in \<^verbatim>\<open>_get_system_status\<close>.
\<close>

definition recent_errors :: "int \<Rightarrow> metrics \<Rightarrow> error_log list" where
  "recent_errors now m =
     filter (\<lambda>e. timedelta_seconds (now - error_timestamp e) < 3600) (errors m)"

text \<open>\<^verbatim>\<open>CreditRiskMonitor._check_alerts\<close>; the result lists the warnings it logs.\<close>

definition check_alerts :: "int \<Rightarrow> metrics \<Rightarrow> alert list" where
  "check_alerts now m =
     (if length (predictions m) < 10 then []
      else
        (let recent = last_n 10 (predictions m);
             recent_agreements = map agreement recent;
             recent_times = map response_time recent;
             agreement_rate =
               real_of_int (sum_bools recent_agreements) / real (length recent_agreements) * 100;
             avg_time = sum_list recent_times / real (length recent_times)
         in (if agreement_rate < 70 then [LowAgreement] else [])
          @ (if avg_time > 5 then [HighLatency] else [])
          @ (if length (recent_errors now m) > 5 then [ErrorSpike] else [])))"

text \<open>
  The format \<^verbatim>\<open>:.2f\<close> of the log line of \<^verbatim>\<open>log_prediction\<close>, applied to the
  confidence the remote classifier gave: floats and booleans format; an integer is
  converted to a float first, which raises \<^verbatim>\<open>OverflowError\<close> when it rounds beyond
  the largest float (from \<open>2^1024 - 2^970\<close> on, in absolute value); a string raises
  \<^verbatim>\<open>ValueError\<close>, anything else \<^verbatim>\<open>TypeError\<close>.
\<close>

fun format_2f :: "json \<Rightarrow> py_exception option" where
  "format_2f (JInt i) = (if \<bar>i\<bar> \<ge> 2 ^ 1024 - 2 ^ 970 then Some OverflowError else None)"
| "format_2f (JFloat x) = None"
| "format_2f (JBool b) = None"
| "format_2f (JStr s) = Some ValueError"
| "format_2f v = Some TypeError"

text \<open>
  \<^verbatim>\<open>CreditRiskMonitor.log_prediction\<close>: the record is appended to the five lists, then
  the log line is formatted (which can raise, the lists already changed), then the
  alerts are checked. The result is the exception or the alerts, and the new state.
\<close>

definition log_prediction ::
  "int \<Rightarrow> request \<Rightarrow> string \<Rightarrow> real \<Rightarrow> json \<Rightarrow> json \<Rightarrow> real \<Rightarrow> metrics
     \<Rightarrow> (py_exception + alert list) \<times> metrics" where
  "log_prediction now req ml_result ml_prob bedrock_result bedrock_conf rt m =
     (let entry = \<lparr>timestamp = now, request = req, ml_prediction = ml_result,
                    ml_probability = ml_prob, bedrock_prediction = bedrock_result,
                    bedrock_confidence = bedrock_conf,
                    agreement = (JStr ml_result = bedrock_result), response_time = rt\<rparr>;
          m' = m\<lparr>predictions := predictions m @ [entry],
                  response_times := response_times m @ [rt],
                  ml_predictions := ml_predictions m @ [ml_result],
                  bedrock_predictions := bedrock_predictions m @ [bedrock_result],
                  agreements := agreements m @ [JStr ml_result = bedrock_result]\<rparr>
      in case format_2f bedrock_conf of
           Some e \<Rightarrow> (Inl e, m')
         | None \<Rightarrow> (Inr (check_alerts now m'), m'))"

text \<open>\<^verbatim>\<open>CreditRiskMonitor.log_error\<close>.\<close>

definition log_error :: "int \<Rightarrow> string \<Rightarrow> string \<Rightarrow> request option \<Rightarrow> metrics \<Rightarrow> metrics" where
  "log_error now etype emsg req m =
     m\<lparr>errors := errors m @
         [\<lparr>error_timestamp = now, error_type = etype, error_message = emsg,
           request_data = req\<rparr>]\<rparr>"

text \<open>
  The status text for more than five recent errors is written in the source with an
  accented I, two bytes in UTF-8; the other four status texts are ASCII.
\<close>

definition critico :: string where
  "critico = ''CR'' @ [CHR 0xC3, CHR 0x8D] @ ''TICO''"

text \<open>\<^verbatim>\<open>CreditRiskMonitor._get_system_status\<close>.\<close>

definition get_system_status :: "int \<Rightarrow> metrics \<Rightarrow> string" where
  "get_system_status now m =
     (if predictions m = [] then ''INICIANDO''
      else
        (let recent_agreements =
               (if length (agreements m) \<ge> 10 then last_n 10 (agreements m) else agreements m);
             recent_times =
               (if length (response_times m) \<ge> 10 then last_n 10 (response_times m)
                else response_times m);
             n_recent_errors = length (recent_errors now m)
         in if n_recent_errors > 5 then critico
            else if length recent_agreements > 0
                    \<and> real_of_int (sum_bools recent_agreements) / real (length recent_agreements) < 0.7
              then ''ADVERTENCIA''
            else if length recent_times > 0
                    \<and> sum_list recent_times / real (length recent_times) > 5
              then ''DEGRADADO''
            else ''SALUDABLE''))"

text \<open>
  The answer of \<^verbatim>\<open>get_metrics_summary\<close>: the dictionary with the single key
  \<^verbatim>\<open>message\<close>, or the dictionary of eight entries.
\<close>

record distribution =
  good :: nat
  bad :: nat

record summary =
  total_predictions :: nat
  agreement_rate :: real
  avg_response_time :: real
  ml_distribution :: distribution
  bedrock_distribution :: distribution
  total_errors :: nat
  recent_predictions :: "prediction_log list"
  status :: string

datatype summary_response = Message string | Summary summary

text \<open>The text under the key \<^verbatim>\<open>message\<close>; its accented u is two bytes in UTF-8.\<close>

definition no_data_message :: string where
  "no_data_message = ''No hay datos de predicciones a'' @ [CHR 0xC3, CHR 0xBA] @ ''n''"

text \<open>
  \<^verbatim>\<open>CreditRiskMonitor.get_metrics_summary\<close>. The method reads \<^verbatim>\<open>self.metrics\<close> and
  assigns nothing; the state is returned beside the answer. Dividing by the length of
  an empty \<^verbatim>\<open>response_times\<close> raises.
\<close>

definition get_metrics_summary ::
  "int \<Rightarrow> metrics \<Rightarrow> (py_exception + summary_response) \<times> metrics" where
  "get_metrics_summary now m =
     (if predictions m = [] then (Inr (Message no_data_message), m)
      else if response_times m = [] then (Inl ZeroDivisionError, m)
      else
        (Inr (Summary
           \<lparr>total_predictions = length (predictions m),
            agreement_rate =
              real_of_int (sum_bools (agreements m)) / real (length (predictions m)) * 100,
            avg_response_time = sum_list (response_times m) / real (length (response_times m)),
            ml_distribution =
              \<lparr>good = count_list (ml_predictions m) ''good'',
               bad = count_list (ml_predictions m) ''bad''\<rparr>,
            bedrock_distribution =
              \<lparr>good = count_list (bedrock_predictions m) (JStr ''good''),
               bad = count_list (bedrock_predictions m) (JStr ''bad'')\<rparr>,
            total_errors = length (errors m),
            recent_predictions = last_n 10 (predictions m),
            status = get_system_status now m\<rparr>), m))"

section \<open>Sequences of calls\<close>

text \<open>
  The calls a client of the monitor makes, each with the reading of the clock at the
  call, and the replies it gets.
\<close>

datatype call =
    LogPrediction request string real json json real
  | LogError string string "request option"
  | GetMetricsSummary
  | GetSystemStatus

datatype reply =
    Logged "py_exception + alert list"
  | ErrorLogged
  | SummaryReply "py_exception + summary_response"
  | StatusReply string

fun monitor_call :: "int \<times> call \<Rightarrow> metrics \<Rightarrow> reply \<times> metrics" where
  "monitor_call (now, LogPrediction req ml p br conf rt) m =
     (let (r, m') = log_prediction now req ml p br conf rt m in (Logged r, m'))"
| "monitor_call (now, LogError etype emsg req) m = (ErrorLogged, log_error now etype emsg req m)"
| "monitor_call (now, GetMetricsSummary) m =
     (let (r, m') = get_metrics_summary now m in (SummaryReply r, m'))"
| "monitor_call (now, GetSystemStatus) m = (StatusReply (get_system_status now m), m)"

fun run :: "(int \<times> call) list \<Rightarrow> metrics \<Rightarrow> reply list \<times> metrics" where
  "run [] m = ([], m)"
| "run (c # cs) m =
     (let (r, m') = monitor_call c m; (rs, m'') = run cs m' in (r # rs, m''))"

text \<open>The share of true entries of a window, as a percentage.\<close>

definition agreement_percent :: "bool list \<Rightarrow> real" where
  "agreement_percent bs = 100 * real (length (filter (\<lambda>b. b) bs)) / real (length bs)"

text \<open>The arithmetic mean of a window of response times.\<close>

definition mean :: "real list \<Rightarrow> real" where
  "mean xs = sum_list xs / real (length xs)"

text \<open>
  The lists of \<^verbatim>\<open>self.metrics\<close> that run beside \<^verbatim>\<open>predictions\<close> hold, entry by
  entry, the fields of the records stored there.
\<close>

definition consistent :: "metrics \<Rightarrow> bool" where
  "consistent m \<longleftrightarrow>
     response_times m = map response_time (predictions m)
     \<and> agreements m = map agreement (predictions m)
     \<and> ml_predictions m = map ml_prediction (predictions m)
     \<and> bedrock_predictions m = map bedrock_prediction (predictions m)"

section \<open>Inputs of the scenarios\<close>

text \<open>
  A request on which both models answer good, one on which the remote model answers bad
  where the local one answers good, and one on which the remote model's answer could
  not be parsed; each with the response time of the request.
\<close>

definition agree_call :: "real \<Rightarrow> call" where
  "agree_call rt = LogPrediction [] ''good'' 0.2 (JStr ''good'') (JFloat 0.9) rt"

definition disagree_call :: "real \<Rightarrow> call" where
  "disagree_call rt = LogPrediction [] ''good'' 0.2 (JStr ''bad'') (JFloat 0.8) rt"

text \<open>Nine requests whose agreement alternates, five agreeing and four not.\<close>

definition nine_alternating :: "(int \<times> call) list" where
  "nine_alternating =
     [(0, agree_call 1), (0, disagree_call 1), (0, agree_call 1), (0, disagree_call 1),
      (0, agree_call 1), (0, disagree_call 1), (0, agree_call 1), (0, disagree_call 1),
      (0, agree_call 1)]"

text \<open>Nine requests that took six seconds each.\<close>

definition nine_slow :: "(int \<times> call) list" where
  "nine_slow =
     [(0, agree_call 6), (0, agree_call 6), (0, agree_call 6), (0, agree_call 6),
      (0, agree_call 6), (0, agree_call 6), (0, agree_call 6), (0, agree_call 6),
      (0, agree_call 6)]"

text \<open>
  One disagreement that took twelve seconds, then ten agreements of one second each.
\<close>

definition eleven_requests :: "(int \<times> call) list" where
  "eleven_requests =
     [(0, disagree_call 12),
      (0, agree_call 1), (0, agree_call 1), (0, agree_call 1), (0, agree_call 1),
      (0, agree_call 1), (0, agree_call 1), (0, agree_call 1), (0, agree_call 1),
      (0, agree_call 1), (0, agree_call 1)]"

text \<open>Six errors logged at time 0.\<close>

definition six_errors :: "(int \<times> call) list" where
  "six_errors =
     [(0, LogError ''PREDICTION_ERROR'' ''timeout'' None),
      (0, LogError ''PREDICTION_ERROR'' ''timeout'' None),
      (0, LogError ''PREDICTION_ERROR'' ''timeout'' None),
      (0, LogError ''PREDICTION_ERROR'' ''timeout'' None),
      (0, LogError ''PREDICTION_ERROR'' ''timeout'' None),
      (0, LogError ''PREDICTION_ERROR'' ''timeout'' None)]"

section \<open>Auxiliary facts\<close>

lemma sum_bools_count: "sum_bools bs = int (length (filter (\<lambda>b. b) bs))"
  by (induction bs) (simp_all add: sum_bools_def)

lemma rate_percent:
  "real_of_int (sum_bools bs) / real (length bs) * 100 = agreement_percent bs"
  by (simp add: sum_bools_count agreement_percent_def)


lemma length_last_n: "length (last_n n xs) = min n (length xs)"
  by (simp add: last_n_def)

lemma last_n_short: "length xs \<le> n \<Longrightarrow> last_n n xs = xs"
  by (simp add: last_n_def)


lemma consistent_init: "consistent init"
  by (simp add: consistent_def init_def)

lemma consistent_log_prediction:
  "consistent m \<Longrightarrow> consistent (snd (log_prediction now req ml p br conf rt m))"
  by (simp add: consistent_def log_prediction_def Let_def split: option.splits)

lemma consistent_monitor_call: "consistent m \<Longrightarrow> consistent (snd (monitor_call c m))"
proof (cases c)
  case (Pair now k)
  assume m: "consistent m"
  show ?thesis
  proof (cases k)
    case (LogPrediction req ml p br conf rt)
    then show ?thesis using consistent_log_prediction [OF m, of now req ml p br conf rt] Pair
      by (simp add: split_beta)
  next
    case (LogError etype emsg req)
    then show ?thesis using m Pair by (simp add: log_error_def consistent_def)
  next
    case GetMetricsSummary
    then show ?thesis using m Pair by (simp add: get_metrics_summary_def)
  next
    case GetSystemStatus
    then show ?thesis using m Pair by simp
  qed
qed

text \<open>Every state the monitor reaches from its initial one keeps its lists aligned.\<close>

lemma consistent_run: "consistent m \<Longrightarrow> consistent (snd (run cs m))"
proof (induction cs arbitrary: m)
  case Nil
  then show ?case by simp
next
  case (Cons c cs)
  from Cons.prems have "consistent (snd (monitor_call c m))" by (rule consistent_monitor_call)
  then have "consistent (snd (run cs (snd (monitor_call c m))))" by (rule Cons.IH)
  then show ?case by (simp add: split_beta)
qed

lemma consistent_reachable: "run calls init = (rs, m) \<Longrightarrow> consistent m"
  using consistent_run [OF consistent_init, of calls] by simp

text \<open>
  Running a list of calls, read one call at a time: the replies and the state after the
  first call, then the rest from that state.
\<close>

lemma fst_run_Cons:
  "fst (run (c # cs) m) = fst (monitor_call c m) # fst (run cs (snd (monitor_call c m)))"
  by (simp add: split_beta)

lemma snd_run_Cons: "snd (run (c # cs) m) = snd (run cs (snd (monitor_call c m)))"
  by (simp add: split_beta)

lemma snd_log_prediction:
  "snd (log_prediction now req ml p br conf rt m) =
     m\<lparr>predictions := predictions m @
          [\<lparr>timestamp = now, request = req, ml_prediction = ml, ml_probability = p,
            bedrock_prediction = br, bedrock_confidence = conf,
            agreement = (JStr ml = br), response_time = rt\<rparr>],
       response_times := response_times m @ [rt],
       ml_predictions := ml_predictions m @ [ml],
       bedrock_predictions := bedrock_predictions m @ [br],
       agreements := agreements m @ [JStr ml = br]\<rparr>"
  by (simp add: log_prediction_def Let_def split: option.splits)

lemma fst_monitor_call_LogPrediction:
  "fst (monitor_call (now, LogPrediction req ml p br conf rt) m) =
     Logged (fst (log_prediction now req ml p br conf rt m))"
  by (simp add: split_beta)

lemma snd_monitor_call_LogPrediction:
  "snd (monitor_call (now, LogPrediction req ml p br conf rt) m) =
     snd (log_prediction now req ml p br conf rt m)"
  by (simp add: split_beta)

lemmas scenario_simps =
  fst_run_Cons snd_run_Cons fst_monitor_call_LogPrediction snd_monitor_call_LogPrediction
  snd_log_prediction log_error_def init_def agree_call_def disagree_call_def

lemmas alert_simps =
  check_alerts_def last_n_def sum_bools_def recent_errors_def timedelta_seconds_def Let_def

text \<open>
  For a time difference of less than a day, the seconds of the difference are below
  3600 exactly when the difference is shorter than an hour.
\<close>

lemma timedelta_seconds_within_day:
  assumes "0 \<le> d" and "d < 86400000000"
  shows "timedelta_seconds d < 3600 \<longleftrightarrow> d < 3600000000"
proof -
  have "d mod 86400000000 = d" using assms by simp
  then have s: "timedelta_seconds d = d div 1000000" by (simp add: timedelta_seconds_def)
  have r: "0 \<le> d mod 1000000" "d mod 1000000 < 1000000" by simp_all
  have e: "d = 1000000 * (d div 1000000) + d mod 1000000" by simp
  have "(d div 1000000 < 3600) = (d < 3600000000)" using r e by linarith
  then show ?thesis using s by simp
qed

lemma recent_errors_within_day:
  assumes "\<forall>e \<in> set (errors m). 0 \<le> now - error_timestamp e
             \<and> now - error_timestamp e < 86400000000"
  shows "recent_errors now m
           = filter (\<lambda>e. now - error_timestamp e < 3600000000) (errors m)"
  unfolding recent_errors_def
  using assms by (intro filter_cong refl) (simp add: timedelta_seconds_within_day)

section \<open>Properties of the recommendation\<close>

lemma ml_pred_label: "ml_pred p = ''good'' \<or> ml_pred p = ''bad''"
  by (simp add: ml_pred_def)

text \<open>
  Claim C1. When the local label and the remote label are both one of good and bad, the
  recommendation is the approval text exactly when both are good, the rejection text
  exactly when both are bad, and the manual-review text (whose rationale reads
  "Modelos discrepan", the models disagree) exactly when the two labels differ.
\<close>

theorem recommendation_agreement:
  assumes "ml = ''good'' \<or> ml = ''bad''"
    and "br = JStr ''good'' \<or> br = JStr ''bad''"
  shows "(recommendation ml br = ''APROBAR - Ambos modelos predicen bajo riesgo''
            \<longleftrightarrow> ml = ''good'' \<and> br = JStr ''good'')
       \<and> (recommendation ml br = ''RECHAZAR - Ambos modelos predicen alto riesgo''
            \<longleftrightarrow> ml = ''bad'' \<and> br = JStr ''bad'')
       \<and> (recommendation ml br = ''REVISAR MANUALMENTE - Modelos discrepan''
            \<longleftrightarrow> JStr ml \<noteq> br)"
  using assms by (auto simp add: recommendation_def)

theorem recommendation_agreement_witness:
  "recommendation (ml_pred 0.9) (JStr ''bad'') = ''RECHAZAR - Ambos modelos predicen alto riesgo''
   \<and> recommendation (ml_pred 0.2) (JStr ''good'') = ''APROBAR - Ambos modelos predicen bajo riesgo''
   \<and> recommendation (ml_pred 0.2) (JStr ''bad'') = ''REVISAR MANUALMENTE - Modelos discrepan''"
  using recommendation_agreement [of "ml_pred 0.9" "JStr ''bad''"]
    recommendation_agreement [of "ml_pred 0.2" "JStr ''good''"]
    recommendation_agreement [of "ml_pred 0.2" "JStr ''bad''"]
  by (simp add: ml_pred_def)

text \<open>
  Claim C2, as the spec states it, asks for a rationale of its own
  ("classifier_unavailable") when a label is unknown. The code has one manual-review
  text, and gives it to the pair (good, unknown) as it does to the pair (good, bad).
\<close>

theorem recommendation_unknown_counterexample:
  "recommendation ''good'' (JStr ''unknown'') = ''REVISAR MANUALMENTE - Modelos discrepan''
   \<and> recommendation ''good'' (JStr ''unknown'') = recommendation ''good'' (JStr ''bad'')"
  by (simp add: recommendation_def)

text \<open>
  Claim C2, amended. Whenever one of the two labels is not good or bad (unknown, or any
  other value), the recommendation is the manual-review text, the same one that a
  disagreement gets; the recommendation is a total function of the two labels.
\<close>

theorem recommendation_unavailable:
  assumes "(ml \<noteq> ''good'' \<and> ml \<noteq> ''bad'') \<or> (br \<noteq> JStr ''good'' \<and> br \<noteq> JStr ''bad'')"
  shows "recommendation ml br = ''REVISAR MANUALMENTE - Modelos discrepan''"
  using assms by (auto simp add: recommendation_def)

theorem recommendation_unavailable_witness:
  "recommendation ''good'' (JStr ''unknown'') = ''REVISAR MANUALMENTE - Modelos discrepan''
   \<and> recommendation ''bad'' JNull = ''REVISAR MANUALMENTE - Modelos discrepan''"
  using recommendation_unavailable [of "''good''" "JStr ''unknown''"]
    recommendation_unavailable [of "''bad''" JNull]
  by simp

section \<open>Properties of the alerts\<close>

text \<open>
  Claim C3, as the spec states it, has the latency alert fire on a single record of six
  seconds. The first statement of \<^verbatim>\<open>_check_alerts\<close> returns when fewer than ten
  records are stored: after that one record the recent window has one sample, its mean
  is six seconds, and no alert is logged.
\<close>

theorem high_latency_single_record_counterexample:
  "fst (log_prediction 0 [] ''good'' 0.2 (JStr ''good'') (JFloat 0.9) 6 init) = Inr []
   \<and> HighLatency \<notin> set (check_alerts 0 (snd (run [(0, agree_call 6)] init)))
   \<and> length (last_n 10 (predictions (snd (run [(0, agree_call 6)] init)))) = 1
   \<and> mean (map response_time (last_n 10 (predictions (snd (run [(0, agree_call 6)] init))))) = 6"
  by (simp add: scenario_simps alert_simps log_prediction_def mean_def
      del: run.simps(2) monitor_call.simps(1))

text \<open>
  Claim C3, amended. The latency alert fires exactly when at least ten records are
  stored and the mean response time of the last ten is above five seconds; the
  error alert fires exactly when at least ten records are stored and more than five
  errors count as recent. The minimum of ten records holds for all three alerts.
\<close>

theorem check_alerts_gate:
  "(HighLatency \<in> set (check_alerts now m)
      \<longleftrightarrow> 10 \<le> length (predictions m)
          \<and> mean (map response_time (last_n 10 (predictions m))) > 5)
   \<and> (ErrorSpike \<in> set (check_alerts now m)
      \<longleftrightarrow> 10 \<le> length (predictions m) \<and> length (recent_errors now m) > 5)"
  by (simp add: check_alerts_def mean_def Let_def)

text \<open>Nine slow requests raise nothing; the tenth raises the latency alert.\<close>

theorem check_alerts_gate_witness:
  "HighLatency \<notin> set (check_alerts 0 (snd (run nine_slow init)))
   \<and> HighLatency \<in> set (check_alerts 0 (snd (run (nine_slow @ [(0, agree_call 6)]) init)))
   \<and> ErrorSpike \<notin> set (check_alerts 0 (snd (run (nine_slow @ [(0, agree_call 6)]) init)))"
  using check_alerts_gate [of 0 "snd (run nine_slow init)"]
    check_alerts_gate [of 0 "snd (run (nine_slow @ [(0, agree_call 6)]) init)"]
  by (simp add: nine_slow_def scenario_simps last_n_def mean_def recent_errors_def
      del: run.simps(2) monitor_call.simps(1))

text \<open>
  Claim C6. The agreement alert fires exactly when the recent window (the last ten
  records) holds ten records and the share of agreeing records in it is below 70
  percent.
\<close>

theorem check_alerts_low_agreement:
  "LowAgreement \<in> set (check_alerts now m)
      \<longleftrightarrow> 10 \<le> length (last_n 10 (predictions m))
          \<and> agreement_percent (map agreement (last_n 10 (predictions m))) < 70"
  unfolding check_alerts_def Let_def rate_percent length_last_n
  by simp

text \<open>
  After nine records of alternating agreement the alert is silent; a tenth record, a
  disagreement, brings the window to five agreements in ten and the alert fires.
\<close>

theorem check_alerts_low_agreement_witness:
  "LowAgreement \<notin> set (check_alerts 0 (snd (run nine_alternating init)))
   \<and> LowAgreement \<in> set (check_alerts 0
         (snd (run (nine_alternating @ [(0, disagree_call 1)]) init)))
   \<and> fst (log_prediction 0 [] ''good'' 0.2 (JStr ''bad'') (JFloat 0.8) 1
         (snd (run nine_alternating init))) = Inr [LowAgreement]"
  using check_alerts_low_agreement [of 0 "snd (run nine_alternating init)"]
    check_alerts_low_agreement [of 0 "snd (run (nine_alternating @ [(0, disagree_call 1)]) init)"]
  by (simp add: nine_alternating_def scenario_simps alert_simps agreement_percent_def
      log_prediction_def del: run.simps(2) monitor_call.simps(1))

section \<open>Properties of the status\<close>



text \<open>
  Claim C7 says that the count of recent errors holds exactly the errors of the last
  3600 seconds. The code compares the attribute \<^verbatim>\<open>seconds\<close> of the time difference,
  which leaves the days out. Six errors logged one day and ten seconds before the
  reading of the clock (86410 seconds) all count as recent, none of them lies within
  the last hour, and the status is the critical one.
\<close>

theorem recent_errors_day_old:
  "length (recent_errors 86410000000 (snd (run (six_errors @ [(0, agree_call 1)]) init))) = 6
   \<and> length (filter (\<lambda>e. 86410000000 - error_timestamp e < 3600000000)
        (errors (snd (run (six_errors @ [(0, agree_call 1)]) init)))) = 0
   \<and> get_system_status 86410000000 (snd (run (six_errors @ [(0, agree_call 1)]) init)) = critico"
  by (simp add: six_errors_def scenario_simps recent_errors_def timedelta_seconds_def
      get_system_status_def del: run.simps(2) monitor_call.simps(1))

section \<open>Properties of the summary\<close>

text \<open>
  Claim C9. Two calls of the summary, one after the other at the same reading of the
  clock, give the same answer and leave the state as it was.
\<close>

theorem get_metrics_summary_idempotent:
  "\<exists>r. run [(now, GetMetricsSummary), (now, GetMetricsSummary)] m
          = ([SummaryReply r, SummaryReply r], m)"
  by (simp add: get_metrics_summary_def)

theorem get_metrics_summary_idempotent_witness:
  "\<exists>r. run [(7, GetMetricsSummary), (7, GetMetricsSummary)] (snd (run [(0, agree_call 1)] init))
          = ([SummaryReply r, SummaryReply r], snd (run [(0, agree_call 1)] init))"
  using get_metrics_summary_idempotent [of 7 "snd (run [(0, agree_call 1)] init)"]
  by simp

text \<open>
  Claim C10, as the spec states it, has the summary of an empty window return the
  normal structure. On the initial state the summary is the dictionary that holds only
  a message.
\<close>

theorem get_metrics_summary_empty_counterexample:
  "get_metrics_summary 0 init = (Inr (Message no_data_message), init)
   \<and> length (predictions init) = 0"
  by (simp add: get_metrics_summary_def init_def)

text \<open>
  Claim C10, amended. In every state the monitor reaches: with no record stored the
  summary is the message; with at least one record and fewer than ten, the summary is
  the normal structure, computed from all the records stored (the count, the list of
  recent predictions, the agreement rate, the mean response time, the status).
\<close>

theorem get_metrics_summary_short_window:
  assumes "run calls init = (rs, m)"
  shows "(predictions m = [] \<longrightarrow> get_metrics_summary now m = (Inr (Message no_data_message), m))
       \<and> (0 < length (predictions m) \<and> length (predictions m) < 10 \<longrightarrow>
           (\<exists>s. get_metrics_summary now m = (Inr (Summary s), m)
               \<and> total_predictions s = length (predictions m)
               \<and> recent_predictions s = predictions m
               \<and> agreement_rate s = agreement_percent (map agreement (predictions m))
               \<and> avg_response_time s = mean (map response_time (predictions m))
               \<and> status s = get_system_status now m))"
proof -
  have c: "consistent m" using assms by (rule consistent_reachable)
  then show ?thesis
    by (auto simp add: get_metrics_summary_def consistent_def rate_percent[symmetric] mean_def
        last_n_short)
qed

theorem get_metrics_summary_short_window_witness:
  "length (predictions (snd (run [(0, agree_call 1), (0, disagree_call 3)] init))) = 2
   \<and> (\<exists>s. get_metrics_summary 0 (snd (run [(0, agree_call 1), (0, disagree_call 3)] init))
              = (Inr (Summary s), snd (run [(0, agree_call 1), (0, disagree_call 3)] init))
          \<and> total_predictions s = 2 \<and> length (recent_predictions s) = 2
          \<and> agreement_rate s = 50 \<and> avg_response_time s = 2)
   \<and> get_metrics_summary 0 (snd (run [] init)) = (Inr (Message no_data_message), init)"
proof -
  let ?cs = "[(0, agree_call 1), (0, disagree_call 3)]"
  have r: "run ?cs init = (fst (run ?cs init), snd (run ?cs init))"
    by (simp del: run.simps(2) monitor_call.simps(1))
  have r0: "run [] init = ([], init)" by simp
  have p: "length (predictions (snd (run ?cs init))) = 2"
    by (simp add: scenario_simps del: run.simps(2) monitor_call.simps(1))
  have a: "agreement_percent (map agreement (predictions (snd (run ?cs init)))) = 50"
    by (simp add: scenario_simps agreement_percent_def del: run.simps(2) monitor_call.simps(1))
  have b: "mean (map response_time (predictions (snd (run ?cs init)))) = 2"
    by (simp add: scenario_simps mean_def del: run.simps(2) monitor_call.simps(1))
  have e: "predictions init = []" by (simp add: init_def)
  show ?thesis
    using get_metrics_summary_short_window [OF r, of 0]
      get_metrics_summary_short_window [OF r0, of 0] p a b e
    by auto
qed

text \<open>
  Claim C4, as the spec states it, has the summary report the agreement rate and the
  mean response time of the last ten records. After one slow disagreement and ten fast
  agreements the summary reports 1000/11 percent and two seconds, the figures of all
  eleven records; the last ten records agree to 100 percent and took one second each.
\<close>

theorem get_metrics_summary_lifetime_counterexample:
  "fst (get_metrics_summary 0 (snd (run eleven_requests init))) =
     Inr (Summary \<lparr>total_predictions = 11, agreement_rate = 1000 / 11, avg_response_time = 2,
        ml_distribution = \<lparr>good = 11, bad = 0\<rparr>, bedrock_distribution = \<lparr>good = 10, bad = 1\<rparr>,
        total_errors = 0,
        recent_predictions = last_n 10 (predictions (snd (run eleven_requests init))),
        status = ''SALUDABLE''\<rparr>)
   \<and> agreement_percent (map agreement (last_n 10 (predictions (snd (run eleven_requests init))))) = 100
   \<and> mean (map response_time (last_n 10 (predictions (snd (run eleven_requests init))))) = 1"
  by (simp add: eleven_requests_def scenario_simps get_metrics_summary_def get_system_status_def
        last_n_def sum_bools_def agreement_percent_def mean_def recent_errors_def
        del: run.simps(2) monitor_call.simps(1))

text \<open>
  Claim C4, amended. In every state the monitor reaches with at least one record, the
  agreement rate and the mean response time of the summary are those of all the
  records stored since the start; the last ten records are what the summary lists as
  its recent predictions.
\<close>

theorem get_metrics_summary_lifetime:
  assumes "run calls init = (rs, m)" and "predictions m \<noteq> []"
  shows "\<exists>s. get_metrics_summary now m = (Inr (Summary s), m)
           \<and> agreement_rate s = agreement_percent (map agreement (predictions m))
           \<and> avg_response_time s = mean (map response_time (predictions m))
           \<and> recent_predictions s = last_n 10 (predictions m)"
proof -
  have c: "consistent m" using assms(1) by (rule consistent_reachable)
  then show ?thesis using assms(2)
    by (simp add: get_metrics_summary_def consistent_def rate_percent[symmetric] mean_def)
qed

theorem get_metrics_summary_lifetime_witness:
  "predictions (snd (run eleven_requests init)) \<noteq> []
   \<and> (\<exists>s. get_metrics_summary 0 (snd (run eleven_requests init))
              = (Inr (Summary s), snd (run eleven_requests init))
          \<and> agreement_rate s = 1000 / 11 \<and> avg_response_time s = 2
          \<and> length (recent_predictions s) = 10)"
proof -
  have r: "run eleven_requests init
             = (fst (run eleven_requests init), snd (run eleven_requests init))"
    by simp
  have p: "predictions (snd (run eleven_requests init)) \<noteq> []"
    by (simp add: eleven_requests_def scenario_simps del: run.simps(2) monitor_call.simps(1))
  have a: "agreement_percent (map agreement (predictions (snd (run eleven_requests init))))
             = 1000 / 11"
    by (simp add: eleven_requests_def scenario_simps agreement_percent_def
        del: run.simps(2) monitor_call.simps(1))
  have b: "mean (map response_time (predictions (snd (run eleven_requests init)))) = 2"
    by (simp add: eleven_requests_def scenario_simps mean_def
        del: run.simps(2) monitor_call.simps(1))
  have l: "length (last_n 10 (predictions (snd (run eleven_requests init)))) = 10"
    by (simp add: eleven_requests_def scenario_simps length_last_n
        del: run.simps(2) monitor_call.simps(1))
  show ?thesis
    using get_metrics_summary_lifetime [OF r p, of 0] p a b l by auto
qed

section \<open>Properties of the parser\<close>

text \<open>
  Claim C8, as the spec states it, keeps every label within good, bad and unknown and
  every confidence within 0 and 1. An answer in the form the prompt asks for, with the
  label in capitals and the confidence as a percentage, goes through the parser as it
  is.
\<close>

theorem classify_credit_risk_label_counterexample:
  \<open>get_item (classify_credit_risk loads_sample
       (Inr ''{"prediction": "GOOD", "confidence": 95, "reasoning": "stable income"}''))
     ''prediction'' = Some (JStr ''GOOD'')
   \<and> get_item (classify_credit_risk loads_sample
       (Inr ''{"prediction": "GOOD", "confidence": 95, "reasoning": "stable income"}''))
     ''confidence'' = Some (JInt 95)\<close>
  by (simp add: classify_credit_risk_def parse_classification_response_def loads_sample_def
      rfind_char_def py_slice_def slice_index_def has_key_def get_item_def Let_def)

text \<open>
  Claim C8, amended. The result of the classification is determined in every case.
  When the answer has an opening and a closing brace and the text from the first
  opening to the last closing brace loads as an object with the keys prediction and
  confidence, the result is that object, as it is (the values of the two keys are not
  checked). When that text does not load, the result is unknown with confidence 0.0.
  When a brace is missing, or the object lacks one of the two keys, the result is good
  with confidence 0.6 if the answer in lower case contains "good", else bad with
  confidence 0.6 if it contains "bad", else unknown with confidence 0.0. A call that
  failed gives unknown with confidence 0.0.
\<close>

theorem classify_credit_risk_result:
  "(\<forall>msg. response = Inl msg \<longrightarrow>
      classify_credit_risk loads response =
        [(''prediction'', JStr ''unknown''), (''confidence'', JFloat 0),
         (''reasoning'', JStr (''Error: '' @ msg))])
   \<and> (\<forall>answer. response = Inr answer \<longrightarrow>
        (let braces = (find_char (CHR ''{'') answer \<noteq> - 1
                        \<and> rfind_char (CHR ''}'') answer \<noteq> - 1);
             loaded = loads (py_slice answer (find_char (CHR ''{'') answer)
                                             (rfind_char (CHR ''}'') answer + 1))
         in (\<forall>d. braces \<and> loaded = Inr d \<and> has_key ''prediction'' d \<and> has_key ''confidence'' d
               \<longrightarrow> classify_credit_risk loads response = d)
          \<and> (\<forall>msg. braces \<and> loaded = Inl msg
               \<longrightarrow> classify_credit_risk loads response =
                     [(''prediction'', JStr ''unknown''), (''confidence'', JFloat 0),
                      (''reasoning'', JStr (''Parse error: '' @ msg))])
          \<and> (\<not> braces
                \<or> (\<exists>d. loaded = Inr d \<and> \<not> (has_key ''prediction'' d \<and> has_key ''confidence'' d))
               \<longrightarrow> classify_credit_risk loads response =
                     (if contains ''good'' (lower answer) then
                        [(''prediction'', JStr ''good''), (''confidence'', JFloat 0.6),
                         (''reasoning'', JStr ''Parsed from text'')]
                      else if contains ''bad'' (lower answer) then
                        [(''prediction'', JStr ''bad''), (''confidence'', JFloat 0.6),
                         (''reasoning'', JStr ''Parsed from text'')]
                      else
                        [(''prediction'', JStr ''unknown''), (''confidence'', JFloat 0),
                         (''reasoning'', JStr ''Could not parse'')]))))"
proof (cases response)
  case (Inl msg)
  then show ?thesis by (simp add: classify_credit_risk_def)
next
  case (Inr answer)
  show ?thesis
  proof (cases "loads (py_slice answer (find_char (CHR ''{'') answer)
                                       (rfind_char (CHR ''}'') answer + 1))")
    case (Inl msg)
    with Inr show ?thesis
      by (simp add: classify_credit_risk_def parse_classification_response_def Let_def)
  next
    case (Inr d)
    with \<open>response = Inr answer\<close> show ?thesis
      by (auto simp add: classify_credit_risk_def parse_classification_response_def Let_def)
  qed
qed

text \<open>
  One answer for each case: an object with both keys inside a sentence, which comes
  back as it is; an object without the keys, an answer without braces that says good,
  one that says bad and one that says neither; a text that does not load; a failed
  call.
\<close>

theorem classify_credit_risk_result_witness:
  \<open>classify_credit_risk loads_sample
      (Inr ''Answer: {"prediction": "GOOD", "confidence": 95, "reasoning": "stable income"} (end)'') =
     [(''prediction'', JStr ''GOOD''), (''confidence'', JInt 95),
      (''reasoning'', JStr ''stable income'')]
   \<and> classify_credit_risk loads_sample (Inr ''{"label": "bad"}'') =
     [(''prediction'', JStr ''bad''), (''confidence'', JFloat 0.6),
      (''reasoning'', JStr ''Parsed from text'')]
   \<and> classify_credit_risk loads_sample (Inr ''{"prediction": BAD}'') =
     [(''prediction'', JStr ''unknown''), (''confidence'', JFloat 0),
      (''reasoning'', JStr ''Parse error: Expecting value: line 1 column 16 (char 15)'')]
   \<and> classify_credit_risk loads_sample (Inr ''I would rate this client as Good.'') =
     [(''prediction'', JStr ''good''), (''confidence'', JFloat 0.6),
      (''reasoning'', JStr ''Parsed from text'')]
   \<and> classify_credit_risk loads_sample (Inr ''Too risky: BAD'') =
     [(''prediction'', JStr ''bad''), (''confidence'', JFloat 0.6),
      (''reasoning'', JStr ''Parsed from text'')]
   \<and> classify_credit_risk loads_sample (Inr ''I cannot tell.'') =
     [(''prediction'', JStr ''unknown''), (''confidence'', JFloat 0),
      (''reasoning'', JStr ''Could not parse'')]
   \<and> classify_credit_risk loads_sample (Inl ''timed out'') =
     [(''prediction'', JStr ''unknown''), (''confidence'', JFloat 0),
      (''reasoning'', JStr ''Error: timed out'')]\<close>
proof -
  let ?t1 = \<open>''Answer: {"prediction": "GOOD", "confidence": 95, "reasoning": "stable income"} (end)''\<close>
  let ?t2 = \<open>''{"label": "bad"}''\<close>
  let ?t3 = \<open>''{"prediction": BAD}''\<close>
  let ?t4 = "''I would rate this client as Good.''"
  let ?t5 = "''Too risky: BAD''"
  let ?t6 = "''I cannot tell.''"
  note low = lower_def lower_char_def
  have f1: "find_char (CHR ''{'') ?t1 = 8" by simp
  have r1: "rfind_char (CHR ''}'') ?t1 = 77" by (simp add: rfind_char_def)
  have s1: \<open>py_slice ?t1 8 78 =
      ''{"prediction": "GOOD", "confidence": 95, "reasoning": "stable income"}''\<close>
    by (simp add: py_slice_def slice_index_def)
  have l1: \<open>loads_sample ''{"prediction": "GOOD", "confidence": 95, "reasoning": "stable income"}''
      = Inr [(''prediction'', JStr ''GOOD''), (''confidence'', JInt 95),
             (''reasoning'', JStr ''stable income'')]\<close>
    by (simp add: loads_sample_def)
  have e1: "classify_credit_risk loads_sample (Inr ?t1) =
     [(''prediction'', JStr ''GOOD''), (''confidence'', JInt 95),
      (''reasoning'', JStr ''stable income'')]"
    using classify_credit_risk_result [of "Inr ?t1" loads_sample]
    by (simp add: Let_def f1 r1 s1 l1 has_key_def del: find_char.simps)
  have f2: "find_char (CHR ''{'') ?t2 = 0" by simp
  have r2: "rfind_char (CHR ''}'') ?t2 = 15" by (simp add: rfind_char_def)
  have s2: "py_slice ?t2 0 16 = ?t2" by (simp add: py_slice_def slice_index_def)
  have l2: "loads_sample ?t2 = Inr [(''label'', JStr ''bad'')]" by (simp add: loads_sample_def)
  have c2: "contains ''good'' (lower ?t2) = False" "contains ''bad'' (lower ?t2) = True"
    by (simp_all add: low)
  have e2: "classify_credit_risk loads_sample (Inr ?t2) =
     [(''prediction'', JStr ''bad''), (''confidence'', JFloat 0.6),
      (''reasoning'', JStr ''Parsed from text'')]"
    using classify_credit_risk_result [of "Inr ?t2" loads_sample]
    by (simp add: Let_def f2 r2 s2 l2 c2 has_key_def del: find_char.simps contains.simps)
  have f3: "find_char (CHR ''{'') ?t3 = 0" by simp
  have r3: "rfind_char (CHR ''}'') ?t3 = 18" by (simp add: rfind_char_def)
  have s3: "py_slice ?t3 0 19 = ?t3" by (simp add: py_slice_def slice_index_def)
  have l3: "loads_sample ?t3 = Inl ''Expecting value: line 1 column 16 (char 15)''"
    by (simp add: loads_sample_def)
  have e3: "classify_credit_risk loads_sample (Inr ?t3) =
     [(''prediction'', JStr ''unknown''), (''confidence'', JFloat 0),
      (''reasoning'', JStr ''Parse error: Expecting value: line 1 column 16 (char 15)'')]"
    using classify_credit_risk_result [of "Inr ?t3" loads_sample]
    by (simp add: Let_def f3 r3 s3 l3 del: find_char.simps)
  have f4: "find_char (CHR ''{'') ?t4 = - 1" by simp
  have c4: "contains ''good'' (lower ?t4) = True" by (simp add: low)
  have e4: "classify_credit_risk loads_sample (Inr ?t4) =
     [(''prediction'', JStr ''good''), (''confidence'', JFloat 0.6),
      (''reasoning'', JStr ''Parsed from text'')]"
    using classify_credit_risk_result [of "Inr ?t4" loads_sample]
    by (simp add: Let_def f4 c4 del: find_char.simps contains.simps)
  have f5: "find_char (CHR ''{'') ?t5 = - 1" by simp
  have c5: "contains ''good'' (lower ?t5) = False" "contains ''bad'' (lower ?t5) = True"
    by (simp_all add: low)
  have e5: "classify_credit_risk loads_sample (Inr ?t5) =
     [(''prediction'', JStr ''bad''), (''confidence'', JFloat 0.6),
      (''reasoning'', JStr ''Parsed from text'')]"
    using classify_credit_risk_result [of "Inr ?t5" loads_sample]
    by (simp add: Let_def f5 c5 del: find_char.simps contains.simps)
  have f6: "find_char (CHR ''{'') ?t6 = - 1" by simp
  have c6: "contains ''good'' (lower ?t6) = False" "contains ''bad'' (lower ?t6) = False"
    by (simp_all add: low)
  have e6: "classify_credit_risk loads_sample (Inr ?t6) =
     [(''prediction'', JStr ''unknown''), (''confidence'', JFloat 0),
      (''reasoning'', JStr ''Could not parse'')]"
    using classify_credit_risk_result [of "Inr ?t6" loads_sample]
    by (simp add: Let_def f6 c6 del: find_char.simps contains.simps)
  have e7: "classify_credit_risk loads_sample (Inl ''timed out'') =
     [(''prediction'', JStr ''unknown''), (''confidence'', JFloat 0),
      (''reasoning'', JStr ''Error: timed out'')]"
    using classify_credit_risk_result [of "Inl ''timed out''" loads_sample] by simp
  from e1 e2 e3 e4 e5 e6 e7 show ?thesis by (intro conjI)
qed

end
